theory Spec2Isabelle
  imports Complex_Main "HOL-Library.AList"
begin

text \<open>
  A shallow embedding of three scripts of the sitemap audit: the sitemap validator
  (\<^verbatim>\<open>validateSitemapFiles.js\<close>), the range auditor (\<^verbatim>\<open>auditSitemapURLs.js\<close>) and the
  batch orchestrator (\<^verbatim>\<open>automateAudits.js\<close>). Network, file system and the XML, URL,
  date and number parsers are inputs of the model: a function or a value says what each
  call returns. Mutable objects are passed and returned, exceptions are values, and the
  interleaving of the auditor's asynchronous handlers is a list of events.
\<close>


section \<open>JavaScript values shared by the scripts\<close>

text \<open>
  Decimal rendering of a non-negative integer, as \<^verbatim>\<open>String(n)\<close> and a template
  literal \<^verbatim>\<open>${n}\<close> give it.
\<close>

definition digit_char :: "nat \<Rightarrow> char" where
  "digit_char d = ''0123456789'' ! (d mod 10)"

fun string_of_nat :: "nat \<Rightarrow> string" where
  "string_of_nat n =
     (if n < 10 then [digit_char n] else string_of_nat (n div 10) @ [digit_char (n mod 10)])"

text \<open>\<^verbatim>\<open>s.startsWith(p)\<close> and \<^verbatim>\<open>s.includes(p)\<close> on strings.\<close>

fun startsWith :: "string \<Rightarrow> string \<Rightarrow> bool" where
  "startsWith s [] = True"
| "startsWith [] (p # ps) = False"
| "startsWith (c # cs) (p # ps) = (c = p \<and> startsWith cs ps)"

fun str_includes :: "string \<Rightarrow> string \<Rightarrow> bool" where
  "str_includes [] p = (p = [])"
| "str_includes (c # cs) p = (startsWith (c # cs) p \<or> str_includes cs p)"

section \<open>validateSitemapFiles.js: the sitemap validator\<close>

subsection \<open>Parsed XML values\<close>

text \<open>
  What fast-xml-parser hands to the validator for the content of a tag: a string, a
  number (the parser turns numeric text into a number; it is kept here by its
  \<^verbatim>\<open>String\<close> rendering, \<^verbatim>\<open>0\<close> being the only falsy one), or, for a tag that carries
  attributes, an object whose \<^verbatim>\<open>#text\<close> member holds the text when there is one.
  A tag repeated inside one entry (an array value) is outside the model.
\<close>

datatype js_prim = Str string | Num string

datatype xml_value = Prim js_prim | Elem "js_prim option"

fun truthy_prim :: "js_prim \<Rightarrow> bool" where
  "truthy_prim (Str s) = (s \<noteq> [])"
| "truthy_prim (Num r) = (r \<noteq> ''0'')"

fun truthy :: "xml_value option \<Rightarrow> bool" where
  "truthy None = False"
| "truthy (Some (Prim p)) = truthy_prim p"
| "truthy (Some (Elem t)) = True"

text \<open>\<^verbatim>\<open>v['#text'] || v\<close>: the text of an attributed element when it is truthy, else the value itself.\<close>

fun text_or_self :: "xml_value \<Rightarrow> xml_value" where
  "text_or_self (Elem (Some p)) = (if truthy_prim p then Prim p else Elem (Some p))"
| "text_or_self v = v"

text \<open>String conversion, as a template literal, \<^verbatim>\<open>new URL\<close> and \<^verbatim>\<open>RegExp.test\<close> apply it.\<close>

fun to_string :: "xml_value \<Rightarrow> string" where
  "to_string (Prim (Str s)) = s"
| "to_string (Prim (Num r)) = r"
| "to_string (Elem t) = ''[object Object]''"

text \<open>
  A tag that may occur once, several times or not at all: the parser gives an object,
  an array or nothing (an empty tag without attributes parses to the empty string, which
  is falsy like an absent one).
\<close>

datatype 'a js_multi = Absent | Single 'a | Many "'a list"

fun as_array :: "'a js_multi \<Rightarrow> 'a list" where
  "as_array (Many xs) = xs"
| "as_array (Single x) = [x]"
| "as_array Absent = []"

record url_entry =
  loc :: "xml_value option"
  lastmod :: "xml_value option"
  changefreq :: "xml_value option"
  priority :: "xml_value option"

record sitemap_entry =
  sm_loc :: "xml_value option"
  sm_lastmod :: "xml_value option"

record urlset_node =
  us_xmlns :: "string option"
  url :: "url_entry js_multi"

record sitemapindex_node =
  si_xmlns :: "string option"
  sitemap :: "sitemap_entry js_multi"

record xml_doc =
  sitemapindex :: "sitemapindex_node option"
  urlset :: "urlset_node option"

subsection \<open>The platform functions the validator calls\<close>

datatype js_number = NaN | Finite rat | PosInfinity | NegInfinity

fun below_zero :: "js_number \<Rightarrow> bool" where
  "below_zero (Finite q) = (q < 0)"
| "below_zero NegInfinity = True"
| "below_zero n = False"

fun above_one :: "js_number \<Rightarrow> bool" where
  "above_one (Finite q) = (q > 1)"
| "above_one PosInfinity = True"
| "above_one n = False"

text \<open>
  \<^verbatim>\<open>url_protocol s\<close> is the \<^verbatim>\<open>protocol\<close> of \<^verbatim>\<open>new URL(s)\<close>, or \<^verbatim>\<open>None\<close> when the constructor
  throws; \<^verbatim>\<open>date_parses s\<close> says that \<^verbatim>\<open>new Date(s).getTime()\<close> is not NaN;
  \<^verbatim>\<open>parseFloat\<close> is the global of that name.
\<close>

record platform =
  url_protocol :: "string \<Rightarrow> string option"
  date_parses :: "string \<Rightarrow> bool"
  parseFloat :: "string \<Rightarrow> js_number"

definition SITEMAP_NAMESPACE :: string where
  "SITEMAP_NAMESPACE = ''http://www.sitemaps.org/schemas/sitemap/0.9''"

definition VALID_CHANGEFREQ :: "string list" where
  "VALID_CHANGEFREQ = [''always'', ''hourly'', ''daily'', ''weekly'', ''monthly'', ''yearly'', ''never'']"

definition MAX_URLS_PER_SITEMAP :: nat where
  "MAX_URLS_PER_SITEMAP = 50000"

definition MAX_SITEMAP_SIZE :: nat where
  "MAX_SITEMAP_SIZE = 50 * 1024 * 1024"

definition isValidUrl :: "platform \<Rightarrow> xml_value \<Rightarrow> bool" where
  "isValidUrl pf v =
     (case url_protocol pf (to_string v) of
        None \<Rightarrow> False
      | Some p \<Rightarrow> p = ''http:'' \<or> p = ''https:'')"

text \<open>The four patterns of \<^verbatim>\<open>isValidDate\<close>, each anchored at both ends.\<close>

definition is_digit :: "char \<Rightarrow> bool" where
  "is_digit c = (48 \<le> (of_char c :: nat) \<and> (of_char c :: nat) \<le> 57)"

definition digits :: "string \<Rightarrow> bool" where
  "digits s = list_all is_digit s"

definition match_date :: "string \<Rightarrow> bool" where
  "match_date s =
     (length s = 10 \<and> digits (take 4 s) \<and> s ! 4 = CHR ''-'' \<and> digits (take 2 (drop 5 s))
      \<and> s ! 7 = CHR ''-'' \<and> digits (take 2 (drop 8 s)))"

definition match_time :: "string \<Rightarrow> bool" where
  "match_time s =
     (length s = 9 \<and> s ! 0 = CHR ''T'' \<and> digits (take 2 (drop 1 s)) \<and> s ! 3 = CHR '':''
      \<and> digits (take 2 (drop 4 s)) \<and> s ! 6 = CHR '':'' \<and> digits (take 2 (drop 7 s)))"

definition match_offset :: "string \<Rightarrow> bool" where
  "match_offset s =
     (length s = 6 \<and> (s ! 0 = CHR ''+'' \<or> s ! 0 = CHR ''-'') \<and> digits (take 2 (drop 1 s))
      \<and> s ! 3 = CHR '':'' \<and> digits (take 2 (drop 4 s)))"

definition match_millis_Z :: "string \<Rightarrow> bool" where
  "match_millis_Z s =
     (length s = 5 \<and> s ! 0 = CHR ''.'' \<and> digits (take 3 (drop 1 s)) \<and> s ! 4 = CHR ''Z'')"

definition isValidFormat :: "string \<Rightarrow> bool" where
  "isValidFormat s =
     (match_date s
      \<or> (match_date (take 10 s) \<and> match_time (take 9 (drop 10 s)) \<and> match_offset (drop 19 s))
      \<or> (match_date (take 10 s) \<and> match_time (take 9 (drop 10 s)) \<and> drop 19 s = ''Z'')
      \<or> (match_date (take 10 s) \<and> match_time (take 9 (drop 10 s)) \<and> match_millis_Z (drop 19 s)))"

definition isValidDate :: "platform \<Rightarrow> xml_value \<Rightarrow> bool" where
  "isValidDate pf v =
     (if \<not> isValidFormat (to_string v) then False else date_parses pf (to_string v))"

subsection \<open>The validator instance and its results\<close>

text \<open>The two arrays of a \<^verbatim>\<open>SitemapValidator\<close>: \<^verbatim>\<open>this.errors\<close> and \<^verbatim>\<open>this.warnings\<close>.\<close>

record validator =
  this_errors :: "string list"
  this_warnings :: "string list"

definition new_validator :: validator where
  "new_validator = \<lparr>this_errors = [], this_warnings = []\<rparr>"

definition push_error :: "string \<Rightarrow> validator \<Rightarrow> validator" where
  "push_error m v = v\<lparr>this_errors := this_errors v @ [m]\<rparr>"

definition push_warning :: "string \<Rightarrow> validator \<Rightarrow> validator" where
  "push_warning m v = v\<lparr>this_warnings := this_warnings v @ [m]\<rparr>"

text \<open>
  The object \<^verbatim>\<open>getResults\<close> builds. \<^verbatim>\<open>childSitemaps\<close> and \<^verbatim>\<open>childResults\<close> are the two
  members \<^verbatim>\<open>validateUrl\<close> reads and writes on it; \<^verbatim>\<open>None\<close> is a member that is not there.
  \<^verbatim>\<open>childResults\<close> is an object keyed by URL, kept as an association list in insertion
  order.
\<close>

datatype validation_result =
  ValidationResult
    (valid: bool)
    (errors: "string list")
    (warnings: "string list")
    (childSitemaps: "string list option")
    (childResults: "(string \<times> validation_result) list option")

definition getResults :: "validator \<Rightarrow> validation_result" where
  "getResults v =
     ValidationResult (length (this_errors v) = 0) (this_errors v) (this_warnings v) None None"

subsection \<open>validateUrlset\<close>

text \<open>
  The state of the \<^verbatim>\<open>forEach\<close> over the entries: the validator and the \<^verbatim>\<open>urlSet\<close> of
  locations seen so far. A callback returns the state together with the message of the
  TypeError it threw, if it threw one (\<^verbatim>\<open>loc.includes\<close> on a location that is not a
  string); the pushes made before the throw stay in the validator.
\<close>

type_synonym urlset_loop = "validator \<times> xml_value list"

text \<open>
  \<^verbatim>\<open>urlSet.has\<close>: strings and numbers compare by value, an object only with itself, and
  every object the parser made is a new one. \<^verbatim>\<open>urlSet.add\<close> keeps a value that is
  already there once.
\<close>

fun set_has :: "xml_value list \<Rightarrow> xml_value \<Rightarrow> bool" where
  "set_has seen (Prim p) = (Prim p \<in> set seen)"
| "set_has seen (Elem t) = False"

definition url_label :: "nat \<Rightarrow> string" where
  "url_label index = ''URL '' @ string_of_nat (index + 1)"

definition check_lastmod :: "platform \<Rightarrow> nat \<Rightarrow> url_entry \<Rightarrow> validator \<Rightarrow> validator" where
  "check_lastmod pf index u v =
     (if truthy (lastmod u) then
        (let lm = text_or_self (the (lastmod u)) in
         if \<not> isValidDate pf lm
         then push_warning (url_label index @ '': Invalid lastmod date: '' @ to_string lm) v
         else v)
      else v)"

definition check_changefreq :: "nat \<Rightarrow> url_entry \<Rightarrow> validator \<Rightarrow> validator" where
  "check_changefreq index u v =
     (if truthy (changefreq u) then
        (let cf = text_or_self (the (changefreq u)) in
         if \<not> (\<exists>s \<in> set VALID_CHANGEFREQ. cf = Prim (Str s))
         then push_warning (url_label index @ '': Invalid changefreq: '' @ to_string cf) v
         else v)
      else v)"

definition check_priority :: "platform \<Rightarrow> nat \<Rightarrow> url_entry \<Rightarrow> validator \<Rightarrow> validator" where
  "check_priority pf index u v =
     (if truthy (priority u) then
        (let p = parseFloat pf (to_string (text_or_self (the (priority u)))) in
         if p = NaN \<or> below_zero p \<or> above_one p
         then push_warning (url_label index @ '': Invalid priority: '' @ to_string (the (priority u))) v
         else v)
      else v)"

definition check_common_issues :: "nat \<Rightarrow> xml_value \<Rightarrow> validator \<Rightarrow> string option \<times> validator" where
  "check_common_issues index l v =
     (case l of
        Prim (Str s) \<Rightarrow>
          (let v1 = (if str_includes s '' ''
                     then push_error (url_label index @ '': Contains spaces (should be encoded): '' @ s) v
                     else v);
               v2 = (if str_includes s ''&'' \<and> \<not> str_includes s ''&amp;''
                     then push_error (url_label index @ '': Unescaped ampersand: '' @ s) v1
                     else v1)
           in (None, v2))
      | _ \<Rightarrow> (Some ''loc.includes is not a function'', v))"

definition validateUrlEntry :: "platform \<Rightarrow> nat \<Rightarrow> url_entry \<Rightarrow> urlset_loop \<Rightarrow> string option \<times> urlset_loop" where
  "validateUrlEntry pf index u st =
     (case st of (v, urlSet) \<Rightarrow>
        if \<not> truthy (loc u) then
          (None, (push_error (url_label index @ '': Missing required <loc> element'') v, urlSet))
        else
          (let l = text_or_self (the (loc u));
               v1 = (if \<not> isValidUrl pf l
                     then push_error (url_label index @ '': Invalid URL format: '' @ to_string l) v
                     else v);
               v2 = (if set_has urlSet l
                     then push_warning (url_label index @ '': Duplicate URL: '' @ to_string l) v1
                     else v1);
               urlSet' = (if set_has urlSet l then urlSet else urlSet @ [l]);
               v3 = check_lastmod pf index u v2;
               v4 = check_changefreq index u v3;
               v5 = check_priority pf index u v4
           in (case check_common_issues index l v5 of (thrown, v6) \<Rightarrow> (thrown, (v6, urlSet')))))"

text \<open>\<^verbatim>\<open>Array.prototype.forEach\<close> with the index, left at the first callback that throws.\<close>

fun forEach :: "(nat \<Rightarrow> 'a \<Rightarrow> 's \<Rightarrow> string option \<times> 's) \<Rightarrow> nat \<Rightarrow> 'a list \<Rightarrow> 's \<Rightarrow> string option \<times> 's" where
  "forEach f index [] st = (None, st)"
| "forEach f index (x # xs) st =
     (case f index x st of
        (Some thrown, st') \<Rightarrow> (Some thrown, st')
      | (None, st') \<Rightarrow> forEach f (index + 1) xs st')"

definition check_namespace :: "string option \<Rightarrow> validator \<Rightarrow> validator" where
  "check_namespace xmlns v =
     (case xmlns of
        None \<Rightarrow> push_error ''Missing or invalid xmlns namespace'' v
      | Some ns \<Rightarrow>
          if ns = [] \<or> \<not> str_includes ns ''sitemaps.org''
          then push_error ''Missing or invalid xmlns namespace'' v
          else v)"

text \<open>
  A method that may throw returns the validator as it stands and, on a normal return,
  the result object; \<^verbatim>\<open>Inl\<close> carries the message of the exception.
\<close>

definition validateUrlset :: "platform \<Rightarrow> urlset_node \<Rightarrow> validator \<Rightarrow> (string + validation_result) \<times> validator" where
  "validateUrlset pf us v =
     (let v1 = check_namespace (us_xmlns us) v;
          urls = as_array (url us);
          v2 = (if length urls = 0 then push_warning ''Sitemap contains no URLs'' v1 else v1);
          v3 = (if length urls > MAX_URLS_PER_SITEMAP
                then push_error (''Too many URLs ('' @ string_of_nat (length urls) @ ''). Maximum is ''
                                 @ string_of_nat MAX_URLS_PER_SITEMAP) v2
                else v2)
      in (case forEach (validateUrlEntry pf) 0 urls (v3, []) of
            (Some thrown, (v4, urlSet)) \<Rightarrow> (Inl thrown, v4)
          | (None, (v4, urlSet)) \<Rightarrow> (Inr (getResults v4), v4)))"




subsection \<open>validateSitemapIndex\<close>

definition sitemap_label :: "nat \<Rightarrow> string" where
  "sitemap_label index = ''Sitemap '' @ string_of_nat (index + 1)"

definition validateSitemapEntry :: "platform \<Rightarrow> nat \<Rightarrow> sitemap_entry \<Rightarrow> validator \<Rightarrow> string option \<times> validator" where
  "validateSitemapEntry pf index e v =
     (let v1 = (if \<not> truthy (sm_loc e)
                then push_error (sitemap_label index @ '': Missing required <loc> element'') v
                else if \<not> isValidUrl pf (the (sm_loc e))
                then push_error (sitemap_label index @ '': Invalid URL: '' @ to_string (the (sm_loc e))) v
                else v);
          v2 = (if truthy (sm_lastmod e) \<and> \<not> isValidDate pf (the (sm_lastmod e))
                then push_warning (sitemap_label index @ '': Invalid lastmod date: ''
                                   @ to_string (the (sm_lastmod e))) v1
                else v1)
      in (None, v2))"

definition validateSitemapIndex :: "platform \<Rightarrow> sitemapindex_node \<Rightarrow> validator \<Rightarrow> (string + validation_result) \<times> validator" where
  "validateSitemapIndex pf si v =
     (let v1 = check_namespace (si_xmlns si) v;
          sitemaps = as_array (sitemap si);
          v2 = (if length sitemaps = 0 then push_warning ''Sitemap index contains no sitemaps'' v1 else v1)
      in (case forEach (validateSitemapEntry pf) 0 sitemaps v2 of
            (Some thrown, v3) \<Rightarrow> (Inl thrown, v3)
          | (None, v3) \<Rightarrow> (Inr (getResults v3), v3)))"

subsection \<open>validateContent\<close>

text \<open>
  The fetched or read text, given by what the three library calls made on it return:
  \<^verbatim>\<open>Buffer.byteLength\<close>, \<^verbatim>\<open>XMLValidator.validate\<close> (\<^verbatim>\<open>None\<close> for \<^verbatim>\<open>true\<close>, else the
  JSON text of the error object) and \<^verbatim>\<open>XMLParser.parse\<close> (\<^verbatim>\<open>Inl\<close> the message of the
  exception it throws). In the parsed document a root member is \<^verbatim>\<open>None\<close> when it is
  absent or falsy.
\<close>

record payload =
  byteLength :: nat
  xmlValidation :: "string option"
  parsed :: "string + xml_doc"

text \<open>
  \<^verbatim>\<open>(sizeInBytes / 1024 / 1024).toFixed(2)\<close>: the quotient is exact in binary, and
  \<^verbatim>\<open>toFixed\<close> rounds it to hundredths, a tie going up.
\<close>

definition megabytes_toFixed2 :: "nat \<Rightarrow> string" where
  "megabytes_toFixed2 sizeInBytes =
     (let n = (sizeInBytes * 200 + 1048576) div 2097152
      in string_of_nat (n div 100) @ ''.'' @ [digit_char (n mod 100 div 10), digit_char (n mod 10)])"

definition validateContent :: "platform \<Rightarrow> payload \<Rightarrow> validator \<Rightarrow> (string + validation_result) \<times> validator" where
  "validateContent pf content v =
     (let v1 = (if byteLength content > MAX_SITEMAP_SIZE
                then push_error (''File size ('' @ megabytes_toFixed2 (byteLength content)
                                 @ ''MB) exceeds 50MB limit'') v
                else v)
      in (case xmlValidation content of
            Some problem \<Rightarrow>
              (let v2 = push_error (''Invalid XML: '' @ problem) v1 in (Inr (getResults v2), v2))
          | None \<Rightarrow>
              (case parsed content of
                 Inl msg \<Rightarrow>
                   (let v2 = push_error (''XML parsing error: '' @ msg) v1 in (Inr (getResults v2), v2))
               | Inr doc \<Rightarrow>
                   (case sitemapindex doc of
                      Some si \<Rightarrow> validateSitemapIndex pf si v1
                    | None \<Rightarrow>
                        (case urlset doc of
                           Some us \<Rightarrow> validateUrlset pf us v1
                         | None \<Rightarrow>
                             (let v2 = push_error ''Root element must be either <urlset> or <sitemapindex>'' v1
                              in (Inr (getResults v2), v2)))))))"

subsection \<open>validateFile\<close>


subsection \<open>validateUrl and the walk over child sitemaps\<close>

text \<open>
  What \<^verbatim>\<open>fetch(url)\<close> does: it rejects, or it resolves to a response with its \<^verbatim>\<open>ok\<close>,
  \<^verbatim>\<open>status\<close> and \<^verbatim>\<open>statusText\<close>, whose \<^verbatim>\<open>text()\<close> rejects or gives the payload.
\<close>

datatype body = BodyRejects string | Body payload

datatype fetch_outcome = FetchRejects string | Response bool nat string body

text \<open>
  The options object. \<^verbatim>\<open>depth\<close> and \<^verbatim>\<open>maxDepth\<close> are \<^verbatim>\<open>None\<close> when the caller's object
  has no such member: the default \<^verbatim>\<open>{ recursive: false, depth: 0, maxDepth: 3 }\<close> only
  stands in for a missing argument, and \<^verbatim>\<open>validateMultipleSitemaps\<close> passes
  \<^verbatim>\<open>{ recursive }\<close>. A comparison with \<^verbatim>\<open>undefined\<close> or \<^verbatim>\<open>NaN\<close> is false, and
  \<^verbatim>\<open>undefined + 1\<close> is \<^verbatim>\<open>NaN\<close>.
\<close>

record options =
  recursive :: bool
  depth :: "nat option"
  maxDepth :: "nat option"


fun js_less :: "nat option \<Rightarrow> nat option \<Rightarrow> bool" where
  "js_less (Some a) (Some b) = (a < b)"
| "js_less a b = False"

text \<open>The condition of line 68.\<close>

definition should_recurse :: "options \<Rightarrow> validation_result \<Rightarrow> bool" where
  "should_recurse opts results =
     (recursive opts
      \<and> (case childSitemaps results of None \<Rightarrow> False | Some cs \<Rightarrow> length cs > 0)
      \<and> js_less (depth opts) (maxDepth opts))"

definition maxChildSitemaps :: "options \<Rightarrow> validation_result \<Rightarrow> nat" where
  "maxChildSitemaps opts results =
     (if depth opts = Some 0 then length (the (childSitemaps results)) else 10)"

definition childSitemapsToProcess :: "options \<Rightarrow> validation_result \<Rightarrow> string list" where
  "childSitemapsToProcess opts results =
     take (maxChildSitemaps opts results) (the (childSitemaps results))"

definition childOptions :: "options \<Rightarrow> options" where
  "childOptions opts = opts\<lparr>depth := map_option (\<lambda>d. d + 1) (depth opts)\<rparr>"

text \<open>
  Lines 69 and 90 to 92: the result object gets its \<^verbatim>\<open>childResults\<close> and, when children
  were left out, one more warning. Its \<^verbatim>\<open>valid\<close> and \<^verbatim>\<open>errors\<close> members are not touched.
\<close>

definition attachChildResults :: "options \<Rightarrow> validation_result \<Rightarrow> (string \<times> validation_result) list \<Rightarrow> validation_result" where
  "attachChildResults opts results crs =
     ValidationResult (valid results) (errors results)
       (if length (childSitemapsToProcess opts results) < length (the (childSitemaps results))
        then warnings results @ [''Only validated '' @ string_of_nat (maxChildSitemaps opts results)
               @ '' of '' @ string_of_nat (length (the (childSitemaps results))) @ '' child sitemaps'']
        else warnings results)
       (childSitemaps results)
       (Some crs)"

definition remaining_depth :: "options \<Rightarrow> nat" where
  "remaining_depth opts =
     (case (depth opts, maxDepth opts) of (Some d, Some m) \<Rightarrow> m - d | _ \<Rightarrow> 0)"

text \<open>
  \<^verbatim>\<open>validateUrl\<close> returns the URLs fetched, in order, and the result object. Every call
  starts by emptying the instance's two arrays, and every child is validated by a new
  instance, so no validator is passed in. \<^verbatim>\<open>walkChildren\<close> is the \<^verbatim>\<open>for\<close> loop of lines
  81 to 88; it carries the fetch log and the \<^verbatim>\<open>childResults\<close> object filled so far.
\<close>

function validateUrl :: "platform \<Rightarrow> (string \<Rightarrow> fetch_outcome) \<Rightarrow> string \<Rightarrow> options \<Rightarrow> string list \<times> validation_result"
  and walkChildren :: "platform \<Rightarrow> (string \<Rightarrow> fetch_outcome) \<Rightarrow> options \<Rightarrow> string list
        \<Rightarrow> string list \<times> (string \<times> validation_result) list \<Rightarrow> string list \<times> (string \<times> validation_result) list" where
  "validateUrl pf web u opts =
     (case web u of
        FetchRejects msg \<Rightarrow>
          ([u], getResults (push_error (''Failed to fetch URL: '' @ msg) new_validator))
      | Response ok st stText b \<Rightarrow>
          if \<not> ok
          then ([u], getResults (push_error (''HTTP '' @ string_of_nat st @ '': '' @ stText) new_validator))
          else
            (case b of
               BodyRejects msg \<Rightarrow>
                 ([u], getResults (push_error (''Failed to fetch URL: '' @ msg) new_validator))
             | Body content \<Rightarrow>
                 (case validateContent pf content new_validator of
                    (Inl thrown, v) \<Rightarrow>
                      ([u], getResults (push_error (''Failed to fetch URL: '' @ thrown) v))
                  | (Inr results, v) \<Rightarrow>
                      if should_recurse opts results
                      then
                        (case walkChildren pf web (childOptions opts)
                                (childSitemapsToProcess opts results) ([u], []) of
                           (fetched, crs) \<Rightarrow> (fetched, attachChildResults opts results crs))
                      else ([u], results))))"
| "walkChildren pf web copts [] acc = acc"
| "walkChildren pf web copts (childUrl # rest) acc =
     (case acc of (fetched, crs) \<Rightarrow>
        (case validateUrl pf web childUrl copts of
           (fetched', r) \<Rightarrow>
             walkChildren pf web copts rest (fetched @ fetched', AList.update childUrl r crs)))"
  by pat_completeness auto
termination
proof (relation "measures
         [(\<lambda>x. case x of Inl (pf, web, u, opts) \<Rightarrow> 2 * remaining_depth opts
                        | Inr (pf, web, copts, cs, acc) \<Rightarrow> 2 * remaining_depth copts + 1),
          (\<lambda>x. case x of Inl (pf, web, u, opts) \<Rightarrow> 0
                        | Inr (pf, web, copts, cs, acc) \<Rightarrow> length cs)]")
  show "wf (measures
         [(\<lambda>x. case x of Inl (pf, web, u, opts) \<Rightarrow> 2 * remaining_depth opts
                        | Inr (pf, web, copts, cs, acc) \<Rightarrow> 2 * remaining_depth copts + 1),
          (\<lambda>x. case x of Inl (pf, web, u, opts) \<Rightarrow> 0
                        | Inr (pf, web, copts, cs, acc) \<Rightarrow> length cs)])"
    by simp
next
  fix pf :: platform and web :: "string \<Rightarrow> fetch_outcome" and u :: string and opts :: options
    and results :: validation_result
  assume "should_recurse opts results"
  then obtain d m where dm: "depth opts = Some d" "maxDepth opts = Some m" "d < m"
    by (cases "depth opts"; cases "maxDepth opts") (auto simp: should_recurse_def)
  then have "2 * remaining_depth (childOptions opts) + 1 < 2 * remaining_depth opts"
    by (simp add: remaining_depth_def childOptions_def)
  then show "(Inr (pf, web, childOptions opts, childSitemapsToProcess opts results, [u], []),
              Inl (pf, web, u, opts)) \<in> measures
         [(\<lambda>x. case x of Inl (pf, web, u, opts) \<Rightarrow> 2 * remaining_depth opts
                        | Inr (pf, web, copts, cs, acc) \<Rightarrow> 2 * remaining_depth copts + 1),
          (\<lambda>x. case x of Inl (pf, web, u, opts) \<Rightarrow> 0
                        | Inr (pf, web, copts, cs, acc) \<Rightarrow> length cs)]"
    by simp
qed auto

declare validateUrl.simps [simp del]

section \<open>auditSitemapURLs.js: the range auditor\<close>

subsection \<open>One request\<close>

text \<open>
  What the network does with one GET: the server answers with a status (the last one,
  after the redirects axios follows), no answer arrives in time, or the request cannot
  be set up. \<^verbatim>\<open>axios.get\<close> with the default \<^verbatim>\<open>validateStatus\<close> resolves on a status
  from 200 to 299 and rejects with \<^verbatim>\<open>error.response\<close> on any other; it rejects with
  \<^verbatim>\<open>error.request\<close> alone when no answer came, and with neither when the request
  could not be built.
\<close>

datatype reply = Status nat | NoResponse | SetupError string

datatype axios_result =
    Resolved nat
  | RejectedWithResponse nat
  | RejectedNoResponse
  | RejectedSetup string

fun axios_get :: "reply \<Rightarrow> axios_result" where
  "axios_get (Status st) = (if 200 \<le> st \<and> st < 300 then Resolved st else RejectedWithResponse st)"
| "axios_get NoResponse = RejectedNoResponse"
| "axios_get (SetupError msg) = RejectedSetup msg"

subsection \<open>Options and per-execution state\<close>

text \<open>
  \<^verbatim>\<open>firstRow\<close> and \<^verbatim>\<open>lastRow\<close> are JavaScript numbers: \<^verbatim>\<open>None\<close> stands for
  \<^verbatim>\<open>undefined\<close> and \<^verbatim>\<open>NaN\<close>, which are falsy and make every comparison false.
\<close>

record audit_options =
  inputCsv :: string
  outputCsv :: string
  firstRow :: "int option"
  lastRow :: "int option"
  concurrencyLimit :: nat
  timeout :: nat
  maxNon404Results :: nat

text \<open>One row of the output CSV: \<^verbatim>\<open>{ url, status }\<close> or \<^verbatim>\<open>{ url, error }\<close>.\<close>

record outcome_row =
  o_url :: string
  o_status :: "nat option"
  o_error :: "string option"

text \<open>A task is one call \<^verbatim>\<open>limit(() => checkUrl(url))\<close>: the data row it was made for and the URL.\<close>

type_synonym task = "nat \<times> string"

text \<open>
  The variables of one execution (\<^verbatim>\<open>results\<close>, \<^verbatim>\<open>rowNumber\<close>, \<^verbatim>\<open>count404\<close>,
  \<^verbatim>\<open>non404ErrorCount\<close>, \<^verbatim>\<open>shouldStop\<close>) and the part of the runtime they interact
  with: the rows the stream has still to emit (each row by its cell 0; the header line
  comes first, since the parser runs with \<^verbatim>\<open>headers: false\<close>), the queue of p-limit,
  and the requests sent and not yet settled. \<^verbatim>\<open>requested\<close> logs every call of
  \<^verbatim>\<open>axios.get\<close>, in order.
\<close>

record sweep =
  results :: "outcome_row list"
  rowNumber :: nat
  count404 :: nat
  non404ErrorCount :: nat
  shouldStop :: bool
  unread :: "string list"
  queued :: "task list"
  in_flight :: "task list"
  requested :: "task list"

definition init_sweep :: "string list \<Rightarrow> sweep" where
  "init_sweep rows =
     \<lparr>results = [], rowNumber = 0, count404 = 0, non404ErrorCount = 0, shouldStop = False,
      unread = rows, queued = [], in_flight = [], requested = []\<rparr>"

subsection \<open>checkUrl\<close>

definition count_non404 :: "audit_options \<Rightarrow> sweep \<Rightarrow> sweep" where
  "count_non404 cfg s =
     (let s1 = s\<lparr>non404ErrorCount := non404ErrorCount s + 1\<rparr>
      in if maxNon404Results cfg > 0 \<and> non404ErrorCount s1 \<ge> maxNon404Results cfg
         then s1\<lparr>shouldStop := True\<rparr>
         else s1)"

definition record_status :: "audit_options \<Rightarrow> string \<Rightarrow> nat \<Rightarrow> sweep \<Rightarrow> sweep" where
  "record_status cfg u st s =
     (let s1 = s\<lparr>results := results s @ [\<lparr>o_url = u, o_status = Some st, o_error = None\<rparr>]\<rparr>
      in if st = 404 then s1\<lparr>count404 := count404 s1 + 1\<rparr> else count_non404 cfg s1)"

definition record_error :: "audit_options \<Rightarrow> string \<Rightarrow> string \<Rightarrow> sweep \<Rightarrow> sweep" where
  "record_error cfg u msg s =
     count_non404 cfg (s\<lparr>results := results s @ [\<lparr>o_url = u, o_status = None, o_error = Some msg\<rparr>]\<rparr>)"

text \<open>The part of \<^verbatim>\<open>checkUrl\<close> that runs once the awaited request has settled.\<close>

fun checkUrl_settled :: "audit_options \<Rightarrow> string \<Rightarrow> axios_result \<Rightarrow> sweep \<Rightarrow> sweep" where
  "checkUrl_settled cfg u (Resolved st) s = (if st \<noteq> 200 then record_status cfg u st s else s)"
| "checkUrl_settled cfg u (RejectedWithResponse st) s = record_status cfg u st s"
| "checkUrl_settled cfg u RejectedNoResponse s = record_error cfg u ''No response received'' s"
| "checkUrl_settled cfg u (RejectedSetup msg) s = record_error cfg u msg s"

text \<open>
  The part that runs when p-limit starts the task: with \<^verbatim>\<open>shouldStop\<close> set it returns at
  once, otherwise it sends the request and waits.
\<close>

definition checkUrl_started :: "task \<Rightarrow> sweep \<Rightarrow> sweep" where
  "checkUrl_started t s =
     (if shouldStop s then s
      else s\<lparr>in_flight := in_flight s @ [t], requested := requested s @ [t]\<rparr>)"

subsection \<open>The stream handler\<close>

definition in_range :: "audit_options \<Rightarrow> nat \<Rightarrow> bool" where
  "in_range cfg dataRowNumber =
     (case (firstRow cfg, lastRow cfg) of
        (Some f, Some l) \<Rightarrow> int dataRowNumber \<ge> f \<and> int dataRowNumber \<le> l
      | _ \<Rightarrow> False)"

definition on_data :: "audit_options \<Rightarrow> string \<Rightarrow> sweep \<Rightarrow> sweep" where
  "on_data cfg row s =
     (if shouldStop s then s
      else
        (let s1 = s\<lparr>rowNumber := rowNumber s + 1\<rparr>
         in if rowNumber s1 > 1 then
              (let dataRowNumber = rowNumber s1 - 1
               in if in_range cfg dataRowNumber
                  then s1\<lparr>queued := queued s1 @ [(dataRowNumber, row)]\<rparr>
                  else s1)
            else s1))"

subsection \<open>The event loop\<close>

text \<open>
  Everything runs on one thread; between two suspension points a handler runs to its
  end. An execution is therefore a sequence of three kinds of events, in an order the
  runtime chooses: the stream emits its next row; p-limit starts the oldest queued task,
  which it does only while fewer than \<^verbatim>\<open>concurrencyLimit\<close> are running; the request in
  flight at some position settles. An event that cannot happen in the state leaves it
  as it is. \<^verbatim>\<open>net\<close> gives the network's answer to the request of a task.
\<close>

datatype event = Data | Start | Settle nat

fun step :: "audit_options \<Rightarrow> (task \<Rightarrow> reply) \<Rightarrow> event \<Rightarrow> sweep \<Rightarrow> sweep" where
  "step cfg net Data s =
     (case unread s of
        [] \<Rightarrow> s
      | row # rest \<Rightarrow> on_data cfg row (s\<lparr>unread := rest\<rparr>))"
| "step cfg net Start s =
     (case queued s of
        [] \<Rightarrow> s
      | t # rest \<Rightarrow>
          if length (in_flight s) < concurrencyLimit cfg
          then checkUrl_started t (s\<lparr>queued := rest\<rparr>)
          else s)"
| "step cfg net (Settle k) s =
     (if k < length (in_flight s)
      then checkUrl_settled cfg (snd (in_flight s ! k)) (axios_get (net (in_flight s ! k)))
             (s\<lparr>in_flight := take k (in_flight s) @ drop (Suc k) (in_flight s)\<rparr>)
      else s)"

definition run_events :: "audit_options \<Rightarrow> (task \<Rightarrow> reply) \<Rightarrow> event list \<Rightarrow> sweep \<Rightarrow> sweep" where
  "run_events cfg net evs s = fold (step cfg net) evs s"


datatype audit_error = MissingParameters | BadConcurrency

definition falsy_number :: "int option \<Rightarrow> bool" where
  "falsy_number n = (n = None \<or> n = Some 0)"

text \<open>
  \<^verbatim>\<open>auditSitemapURLs\<close> under a schedule of events: the error it throws before any I/O, or
  the state the schedule leads to. p-limit refuses a concurrency that is not at least 1.
\<close>

definition auditSitemapURLs :: "audit_options \<Rightarrow> (task \<Rightarrow> reply) \<Rightarrow> string list \<Rightarrow> event list \<Rightarrow> audit_error + sweep" where
  "auditSitemapURLs cfg net rows evs =
     (if outputCsv cfg = [] \<or> falsy_number (firstRow cfg) \<or> falsy_number (lastRow cfg)
      then Inl MissingParameters
      else if concurrencyLimit cfg = 0 then Inl BadConcurrency
      else Inr (run_events cfg net evs (init_sweep rows)))"


subsection \<open>Predicates on the states of a sweep\<close>

text \<open>
  The two counters add up to the number of recorded rows, and every recorded row
  belongs to a request that was sent and whose answer was not status 200.
\<close>

definition accounted :: "(task \<Rightarrow> reply) \<Rightarrow> sweep \<Rightarrow> bool" where
  "accounted net s =
     (count404 s + non404ErrorCount s = length (results s)
      \<and> set (in_flight s) \<subseteq> set (requested s)
      \<and> (\<forall>r \<in> set (results s).
            o_status r \<noteq> Some 200
            \<and> (\<exists>t \<in> set (requested s). o_url r = snd t \<and> net t \<noteq> Status 200)))"

text \<open>The tasks made from the first \<^verbatim>\<open>n\<close> rows of the stream, the header being row 0.\<close>

definition tasks_upto :: "audit_options \<Rightarrow> string list \<Rightarrow> nat \<Rightarrow> task list" where
  "tasks_upto cfg rows n = map (\<lambda>d. (d, rows ! d)) (filter (in_range cfg) [1..<n])"

text \<open>
  With the early stop disabled: the flag is down, the stream is where \<^verbatim>\<open>rowNumber\<close>
  says, and the tasks made so far are the requests sent followed by the queue.
\<close>

definition reading :: "audit_options \<Rightarrow> string list \<Rightarrow> sweep \<Rightarrow> bool" where
  "reading cfg rows s =
     (\<not> shouldStop s \<and> rowNumber s \<le> length rows \<and> unread s = drop (rowNumber s) rows
      \<and> requested s @ queued s = tasks_upto cfg rows (rowNumber s))"

text \<open>What one settled request adds to the recorded rows and to the two counters together.\<close>

definition recorded_by :: "reply \<Rightarrow> nat" where
  "recorded_by r = (if r = Status 200 then 0 else 1)"

text \<open>The flag is up exactly when the early stop is enabled and its threshold is reached.\<close>

definition stop_flag :: "audit_options \<Rightarrow> sweep \<Rightarrow> bool" where
  "stop_flag cfg s =
     (shouldStop s = (maxNon404Results cfg > 0 \<and> non404ErrorCount s \<ge> maxNon404Results cfg))"

text \<open>
  \<^verbatim>\<open>after_stop s s'\<close>: from \<^verbatim>\<open>s\<close> to \<^verbatim>\<open>s'\<close> no request was sent, no row was counted by
  the stream handler, nothing new is in flight, and the rows recorded since \<^verbatim>\<open>s\<close> all
  belong to requests that were in flight in \<^verbatim>\<open>s\<close>.
\<close>

definition after_stop :: "sweep \<Rightarrow> sweep \<Rightarrow> bool" where
  "after_stop s s' =
     (shouldStop s' \<and> requested s' = requested s \<and> rowNumber s' = rowNumber s
      \<and> set (in_flight s') \<subseteq> set (in_flight s)
      \<and> take (length (results s)) (results s') = results s
      \<and> (\<forall>r \<in> set (drop (length (results s)) (results s')). \<exists>t \<in> set (in_flight s). o_url r = snd t))"

section \<open>automateAudits.js: the batch orchestrator\<close>

subsection \<open>Rows of election\_groupings.csv\<close>

text \<open>
  A row read by csv-parser is a JavaScript object with one member per cell of its line.
  It is kept as an association list in the object's own property order, the order
  \<^verbatim>\<open>Object.keys\<close> gives: members whose name is an array index (the canonical decimal
  numeral of an integer below \<^verbatim>\<open>2^32 - 1\<close>) come first, in ascending numeric order, and
  the others follow in the order in which they were first assigned. Characters are code
  units below 256.
\<close>

type_synonym csv_row = "(string \<times> string) list"

definition get_cell :: "csv_row \<Rightarrow> string \<Rightarrow> string option" where
  "get_cell row key = map_of row key"

definition decimal_value :: "string \<Rightarrow> nat" where
  "decimal_value s = foldl (\<lambda>a c. 10 * a + (of_char c - 48)) 0 s"

definition is_array_index :: "string \<Rightarrow> bool" where
  "is_array_index s =
     (s \<noteq> [] \<and> digits s \<and> (s = ''0'' \<or> hd s \<noteq> CHR ''0'') \<and> decimal_value s < 4294967295)"

text \<open>The place of a new member whose name is an array index: after the smaller indices.\<close>

fun insert_index :: "string \<Rightarrow> string \<Rightarrow> csv_row \<Rightarrow> csv_row" where
  "insert_index key v [] = [(key, v)]"
| "insert_index key v ((key', v') # rest) =
     (if is_array_index key' \<and> decimal_value key' < decimal_value key
      then (key', v') # insert_index key v rest
      else (key, v) # (key', v') # rest)"

text \<open>
  The assignment \<^verbatim>\<open>row[key] = v\<close>: a member that exists keeps its place; a new one is
  put where the property order wants it.
\<close>

definition set_cell :: "string \<Rightarrow> string \<Rightarrow> csv_row \<Rightarrow> csv_row" where
  "set_cell key v row =
     (if get_cell row key \<noteq> None then AList.update key v row
      else if is_array_index key then insert_index key v row
      else row @ [(key, v)])"






text \<open>\<^verbatim>\<open>String.prototype.trim\<close>: white space and line terminators go, at both ends.\<close>

definition is_white_space :: "char \<Rightarrow> bool" where
  "is_white_space c = ((of_char c :: nat) \<in> {9, 10, 11, 12, 13, 32, 160})"

definition js_trim :: "string \<Rightarrow> string" where
  "js_trim s = rev (dropWhile is_white_space (rev (dropWhile is_white_space s)))"

text \<open>The test of line 44: \<^verbatim>\<open>row['404s'] && row['404s'].trim() !== ''\<close>.\<close>

definition has_results :: "csv_row \<Rightarrow> bool" where
  "has_results row =
     (case get_cell row ''404s'' of
        None \<Rightarrow> False
      | Some c \<Rightarrow> c \<noteq> [] \<and> js_trim c \<noteq> [])"

text \<open>A member inside a template literal; a missing one prints as \<^verbatim>\<open>undefined\<close>.\<close>

definition template :: "string option \<Rightarrow> string" where
  "template c = (case c of None \<Rightarrow> ''undefined'' | Some s \<Rightarrow> s)"

definition padStart2 :: "string \<Rightarrow> string" where
  "padStart2 s = replicate (2 - length s) (CHR ''0'') @ s"

text \<open>\<^verbatim>\<open>buildOutputFilename\<close>; \<^verbatim>\<open>padStart\<close> of a missing \<^verbatim>\<open>Number\<close> throws a TypeError.\<close>

definition buildOutputFilename :: "csv_row \<Rightarrow> string + string" where
  "buildOutputFilename row =
     (case get_cell row ''Number'' of
        None \<Rightarrow> Inl ''TypeError: Cannot read properties of undefined (reading 'padStart')''
      | Some n \<Rightarrow>
          Inr (''csv_output/'' @ padStart2 n @ ''_'' @ template (get_cell row ''State'')
               @ ''_elections_'' @ template (get_cell row ''Type'') @ ''_non_200_responses.csv''))"

subsection \<open>The call of the range auditor\<close>

text \<open>
  The argument object of one call. \<^verbatim>\<open>Number(cell)\<close> is left to a parameter
  \<^verbatim>\<open>toNumber\<close>, with the numbers in a type of their own. The auditor is a parameter too:
  \<^verbatim>\<open>audit i request\<close> is what the call made for the row at position \<^verbatim>\<open>i\<close> of the list
  comes to, \<^verbatim>\<open>Inl\<close> the exception it throws or \<^verbatim>\<open>Inr\<close> the pair of \<^verbatim>\<open>count404\<close> and
  \<^verbatim>\<open>non404ErrorCount\<close> it resolves to.
\<close>

record 'n audit_request =
  req_inputCsv :: string
  req_outputCsv :: string
  req_firstRow :: 'n
  req_lastRow :: 'n

definition SITEMAP_CSV :: string where
  "SITEMAP_CSV = ''goodparty_sitemap_urls.csv''"

definition request_for :: "(string option \<Rightarrow> 'n) \<Rightarrow> string \<Rightarrow> csv_row \<Rightarrow> 'n audit_request" where
  "request_for toNumber out row =
     \<lparr>req_inputCsv = SITEMAP_CSV, req_outputCsv = out,
      req_firstRow = toNumber (get_cell row ''First Row''),
      req_lastRow = toNumber (get_cell row ''Last Row'')\<rparr>"

text \<open>Lines 52 to 68: the row after the call, updated on success and left alone on failure.\<close>

definition after_audit :: "(string + nat \<times> nat) \<Rightarrow> csv_row \<Rightarrow> csv_row" where
  "after_audit outcome row =
     (case outcome of
        Inr (c404, n404) \<Rightarrow>
          set_cell ''Non-404 Errors'' (string_of_nat n404) (set_cell ''404s'' (string_of_nat c404) row)
      | Inl err \<Rightarrow> row)"

subsection \<open>run\<close>

text \<open>
  The \<^verbatim>\<open>for\<close> loop over the rows, from position \<^verbatim>\<open>i\<close> on. It returns the requests made
  to the auditor, in order, and either the rows as they stand at the end or the
  exception that left the loop (\<^verbatim>\<open>buildOutputFilename\<close> is called outside the
  \<^verbatim>\<open>try\<close>).
\<close>

fun process_rows :: "(string option \<Rightarrow> 'n) \<Rightarrow> (nat \<Rightarrow> 'n audit_request \<Rightarrow> string + nat \<times> nat) \<Rightarrow> nat
      \<Rightarrow> csv_row list \<Rightarrow> 'n audit_request list \<times> (string + csv_row list)" where
  "process_rows toNumber audit i [] = ([], Inr [])"
| "process_rows toNumber audit i (row # rest) =
     (if has_results row then
        (case process_rows toNumber audit (i + 1) rest of
           (calls, Inl e) \<Rightarrow> (calls, Inl e)
         | (calls, Inr rows') \<Rightarrow> (calls, Inr (row # rows')))
      else
        (case buildOutputFilename row of
           Inl e \<Rightarrow> ([], Inl e)
         | Inr out \<Rightarrow>
             (let request = request_for toNumber out row;
                  row' = after_audit (audit i request) row
              in (case process_rows toNumber audit (i + 1) rest of
                    (calls, Inl e) \<Rightarrow> (request # calls, Inl e)
                  | (calls, Inr rows') \<Rightarrow> (request # calls, Inr (row' # rows'))))))"

text \<open>
  The file csv-writer writes: the header line and one line per record, each with the
  members named by the header, a missing one as the empty cell.
\<close>

record written_csv =
  w_header :: "string list"
  w_records :: "string list list"

definition record_line :: "string list \<Rightarrow> csv_row \<Rightarrow> string list" where
  "record_line headers row = map (\<lambda>h. case get_cell row h of None \<Rightarrow> [] | Some c \<Rightarrow> c) headers"

text \<open>
  \<^verbatim>\<open>run\<close>: the requests made to the auditor and the file written, or the exception that
  ends the script (\<^verbatim>\<open>Object.keys(rows[0])\<close> throws on an empty list). The header is
  the key list of the first row, taken before the loop.
\<close>

definition run :: "(string option \<Rightarrow> 'n) \<Rightarrow> (nat \<Rightarrow> 'n audit_request \<Rightarrow> string + nat \<times> nat)
      \<Rightarrow> csv_row list \<Rightarrow> 'n audit_request list \<times> (string + written_csv)" where
  "run toNumber audit rows =
     (case rows of
        [] \<Rightarrow> ([], Inl ''TypeError: Cannot convert undefined or null to object'')
      | first # others \<Rightarrow>
          (let headers = map fst first
           in (case process_rows toNumber audit 0 rows of
                 (calls, Inl e) \<Rightarrow> (calls, Inl e)
               | (calls, Inr rows') \<Rightarrow>
                   (calls, Inr \<lparr>w_header = headers, w_records = map (record_line headers) rows'\<rparr>))))"

text \<open>
  The claim's words for a pending range: both recorded counts, \<^verbatim>\<open>404s\<close> and
  \<^verbatim>\<open>Non-404 Errors\<close>, are blank (missing, empty or white space only).
\<close>

definition blank_cell :: "string option \<Rightarrow> bool" where
  "blank_cell c = (case c of None \<Rightarrow> True | Some s \<Rightarrow> js_trim s = [])"

definition counts_blank :: "csv_row \<Rightarrow> bool" where
  "counts_blank row = (blank_cell (get_cell row ''404s'') \<and> blank_cell (get_cell row ''Non-404 Errors''))"

subsection \<open>The batch, row by row\<close>

text \<open>
  What one row comes to when the loop reaches it at position \<^verbatim>\<open>i\<close>: the request made
  for it, and the row afterwards. A row with results is skipped; a pending row whose
  output name cannot be built makes no request.
\<close>

definition pending :: "csv_row \<Rightarrow> bool" where
  "pending row = (\<not> has_results row)"

definition output_name :: "csv_row \<Rightarrow> string" where
  "output_name row = (case buildOutputFilename row of Inl e \<Rightarrow> [] | Inr out \<Rightarrow> out)"

definition request_of :: "(string option \<Rightarrow> 'n) \<Rightarrow> csv_row \<Rightarrow> 'n audit_request" where
  "request_of toNumber row = request_for toNumber (output_name row) row"

definition audited_row :: "(string option \<Rightarrow> 'n) \<Rightarrow> (nat \<Rightarrow> 'n audit_request \<Rightarrow> string + nat \<times> nat)
      \<Rightarrow> nat \<Rightarrow> csv_row \<Rightarrow> csv_row" where
  "audited_row toNumber audit i row =
     (if pending row then after_audit (audit i (request_of toNumber row)) row else row)"

fun audited_rows :: "(string option \<Rightarrow> 'n) \<Rightarrow> (nat \<Rightarrow> 'n audit_request \<Rightarrow> string + nat \<times> nat)
      \<Rightarrow> nat \<Rightarrow> csv_row list \<Rightarrow> csv_row list" where
  "audited_rows toNumber audit i [] = []"
| "audited_rows toNumber audit i (row # rest) =
     audited_row toNumber audit i row # audited_rows toNumber audit (i + 1) rest"

text \<open>Every pending row has the \<^verbatim>\<open>Number\<close> cell its output name is built from.\<close>

definition numbered :: "csv_row list \<Rightarrow> bool" where
  "numbered rows = list_all (\<lambda>row. has_results row \<or> get_cell row ''Number'' \<noteq> None) rows"

section \<open>Concrete inputs\<close>

text \<open>
  The claim's words for a location with an ampersand that does not start an
  \<^verbatim>\<open>&amp;\<close> escape.
\<close>

fun bare_ampersand :: "string \<Rightarrow> bool" where
  "bare_ampersand [] = False"
| "bare_ampersand (c # cs) = ((c = CHR ''&'' \<and> \<not> startsWith cs ''amp;'') \<or> bare_ampersand cs)"

text \<open>A platform that accepts the two web schemes and every well-formed date.\<close>

definition example_platform :: platform where
  "example_platform =
     \<lparr>url_protocol = (\<lambda>s. if startsWith s ''https://'' then Some ''https:''
                          else if startsWith s ''http://'' then Some ''http:'' else None),
      date_parses = (\<lambda>s. True),
      parseFloat = (\<lambda>s. NaN)\<rparr>"

definition index_payload :: "string list \<Rightarrow> payload" where
  "index_payload children =
     \<lparr>byteLength = 1000, xmlValidation = None,
      parsed = Inr \<lparr>sitemapindex =
                      Some \<lparr>si_xmlns = Some SITEMAP_NAMESPACE,
                            sitemap = Many (map (\<lambda>c. \<lparr>sm_loc = Some (Prim (Str c)), sm_lastmod = None\<rparr>) children)\<rparr>,
                    urlset = None\<rparr>\<rparr>"

text \<open>
  A site whose root index lists two child indexes, each of which lists one sitemap
  that does not exist.
\<close>

definition example_web :: "string \<Rightarrow> fetch_outcome" where
  "example_web u =
     (if u = ''https://a.org/sitemap.xml''
      then Response True 200 ''OK'' (Body (index_payload [''https://a.org/s1.xml'', ''https://a.org/s2.xml'']))
      else if u = ''https://a.org/s1.xml''
      then Response True 200 ''OK'' (Body (index_payload [''https://a.org/s1/a.xml'']))
      else if u = ''https://a.org/s2.xml''
      then Response True 200 ''OK'' (Body (index_payload [''https://a.org/s2/a.xml'']))
      else Response False 404 ''Not Found'' (BodyRejects ''''))"

definition entry_with_loc :: "string \<Rightarrow> url_entry" where
  "entry_with_loc l = \<lparr>loc = Some (Prim (Str l)), lastmod = None, changefreq = None, priority = None\<rparr>"


text \<open>
  A call of \<^verbatim>\<open>validateUrl\<close> that fetched its own URL and nothing else, and whose result
  has neither \<^verbatim>\<open>childSitemaps\<close> nor \<^verbatim>\<open>childResults\<close>.
\<close>

definition fetched_itself_only :: "string \<Rightarrow> string list \<times> validation_result \<Rightarrow> bool" where
  "fetched_itself_only u p =
     (fst p = [u] \<and> childSitemaps (snd p) = None \<and> childResults (snd p) = None
      \<and> (valid (snd p) \<longleftrightarrow> errors (snd p) = []))"

text \<open>
  A rendering of \<^verbatim>\<open>Number\<close> on cells: a string of decimal digits is its value, the
  empty string is 0, and a missing cell or any other string is taken as NaN here.
\<close>

definition example_Number :: "string option \<Rightarrow> int option" where
  "example_Number c =
     (case c of
        None \<Rightarrow> None
      | Some s \<Rightarrow>
          if digits s then Some (int (foldl (\<lambda>a ch. 10 * a + (of_char ch - 48)) 0 s)) else None)"

definition grouping_row :: "string \<Rightarrow> string \<Rightarrow> string \<Rightarrow> string \<Rightarrow> string \<Rightarrow> csv_row" where
  "grouping_row num fr lr c404 n404 =
     [(''Number'', num), (''State'', ''ak''), (''Type'', ''counties''), (''First Row'', fr),
      (''Last Row'', lr), (''404s'', c404), (''Non-404 Errors'', n404)]"

text \<open>Two rows with one count filled in and the other blank.\<close>

definition mixed_rows :: "csv_row list" where
  "mixed_rows = [grouping_row ''1'' ''1'' ''2'' '''' ''5'', grouping_row ''2'' ''3'' ''4'' ''3'' '' '']"

text \<open>Three pending rows, and an auditor that throws at the second.\<close>

definition three_rows :: "csv_row list" where
  "three_rows = [grouping_row ''1'' ''1'' ''2'' '''' '''', grouping_row ''2'' ''3'' ''4'' '''' '''',
                 grouping_row ''3'' ''5'' ''6'' '' '' '''']"

definition failing_second :: "nat \<Rightarrow> int option audit_request \<Rightarrow> string + nat \<times> nat" where
  "failing_second i request = (if i = 1 then Inl ''ENOENT'' else Inr (i, 7))"

definition completed_rows :: "csv_row list" where
  "completed_rows = [grouping_row ''1'' ''1'' ''2'' ''0'' ''0'', grouping_row ''2'' ''3'' ''4'' ''12'' ''1'']"

text \<open>
  A sitemap CSV with its header line and four data rows, a network that answers 500 for
  row 1, 404 for row 2 and 200 for the others, and options for the rows 1 to 3 with two
  requests at a time and a given early-stop threshold.
\<close>

definition example_csv :: "string list" where
  "example_csv = [''URL'', ''https://a.org/1'', ''https://a.org/2'', ''https://a.org/3'', ''https://a.org/4'']"

definition example_net :: "task \<Rightarrow> reply" where
  "example_net t = (if fst t = 1 then Status 500 else if fst t = 2 then Status 404 else Status 200)"

definition example_options :: "nat \<Rightarrow> audit_options" where
  "example_options threshold =
     \<lparr>inputCsv = ''goodparty_sitemap_urls.csv'', outputCsv = ''csv_output/out.csv'',
      firstRow = Some 1, lastRow = Some 3, concurrencyLimit = 2, timeout = 10000,
      maxNon404Results = threshold\<rparr>"

definition stopping_options :: audit_options where
  "stopping_options = example_options 1"


definition until_stop :: "event list" where
  "until_stop = [Data, Data, Data, Data, Start, Start, Settle 0]"

definition from_stop :: "event list" where
  "from_stop = [Data, Start, Settle 0]"










section \<open>Properties of the validator\<close>

subsection \<open>What a validation returns\<close>

lemma getResults_valid_iff: "valid (getResults v) \<longleftrightarrow> errors (getResults v) = []"
  by (simp add: getResults_def)

lemma validateUrlset_returns_getResults:
  "validateUrlset pf us v = (Inr r, v') \<Longrightarrow> r = getResults v'"
  by (auto simp: validateUrlset_def Let_def split: prod.splits option.splits)

lemma validateSitemapIndex_returns_getResults:
  "validateSitemapIndex pf si v = (Inr r, v') \<Longrightarrow> r = getResults v'"
  by (auto simp: validateSitemapIndex_def Let_def split: prod.splits option.splits)

lemma validateContent_returns_getResults:
  "validateContent pf c v = (Inr r, v') \<Longrightarrow> r = getResults v'"
  by (auto simp: validateContent_def Let_def
      dest: validateUrlset_returns_getResults validateSitemapIndex_returns_getResults
      split: option.splits sum.splits)

lemma validateContent_not_recursed:
  "validateContent pf c v = (Inr r, v') \<Longrightarrow> \<not> should_recurse opts r"
  by (auto dest!: validateContent_returns_getResults simp: should_recurse_def getResults_def)

lemma validateUrl_flat:
  "validateUrl pf web u opts =
     (case web u of
        FetchRejects msg \<Rightarrow>
          ([u], getResults (push_error (''Failed to fetch URL: '' @ msg) new_validator))
      | Response ok st stText b \<Rightarrow>
          if \<not> ok
          then ([u], getResults (push_error (''HTTP '' @ string_of_nat st @ '': '' @ stText) new_validator))
          else
            (case b of
               BodyRejects msg \<Rightarrow>
                 ([u], getResults (push_error (''Failed to fetch URL: '' @ msg) new_validator))
             | Body content \<Rightarrow>
                 (case validateContent pf content new_validator of
                    (Inl thrown, v) \<Rightarrow>
                      ([u], getResults (push_error (''Failed to fetch URL: '' @ thrown) v))
                  | (Inr res, v) \<Rightarrow> ([u], getResults v))))"
proof (cases "web u")
  case (FetchRejects msg)
  then show ?thesis by (simp add: validateUrl.simps [of pf web u opts])
next
  case (Response ok st stText b)
  show ?thesis
  proof (cases b)
    case (BodyRejects msg)
    with Response show ?thesis by (simp add: validateUrl.simps [of pf web u opts])
  next
    case (Body content)
    obtain out v where vc: "validateContent pf content new_validator = (out, v)"
      by (cases "validateContent pf content new_validator")
    show ?thesis
    proof (cases out)
      case (Inl thrown)
      with Response Body vc show ?thesis by (simp add: validateUrl.simps [of pf web u opts])
    next
      case (Inr res)
      with vc have "res = getResults v" "\<not> should_recurse opts res"
        using validateContent_returns_getResults validateContent_not_recursed by blast+
      with Response Body vc Inr show ?thesis by (simp add: validateUrl.simps [of pf web u opts])
    qed
  qed
qed



lemma fetched_itself_only_getResults: "fetched_itself_only u ([u], getResults v)"
  by (simp add: fetched_itself_only_def getResults_def)

lemma validateUrl_result: "fetched_itself_only u (validateUrl pf web u opts)"
proof (cases "web u")
  case (FetchRejects msg)
  then show ?thesis by (simp add: validateUrl_flat fetched_itself_only_getResults)
next
  case (Response ok st stText b)
  show ?thesis
  proof (cases b)
    case (BodyRejects msg)
    with Response show ?thesis by (simp add: validateUrl_flat fetched_itself_only_getResults)
  next
    case (Body content)
    obtain out v where vc: "validateContent pf content new_validator = (out, v)"
      by (cases "validateContent pf content new_validator")
    with Response Body show ?thesis by (cases out) (simp_all add: validateUrl_flat fetched_itself_only_getResults)
  qed
qed

lemma example_url_valid:
  "startsWith c ''https://'' \<Longrightarrow> isValidUrl example_platform (Prim (Str c))"
  by (simp add: isValidUrl_def example_platform_def)

lemma sitemap_entry_accepted:
  "startsWith c ''https://'' \<Longrightarrow>
     validateSitemapEntry example_platform i \<lparr>sm_loc = Some (Prim (Str c)), sm_lastmod = None\<rparr> v = (None, v)"
  by (cases c) (simp_all add: validateSitemapEntry_def example_url_valid)

lemma sitemap_entries_accepted:
  "list_all (\<lambda>c. startsWith c ''https://'') cs \<Longrightarrow>
     forEach (validateSitemapEntry example_platform) i
       (map (\<lambda>c. \<lparr>sm_loc = Some (Prim (Str c)), sm_lastmod = None\<rparr>) cs) v = (None, v)"
  by (induction cs arbitrary: i) (simp_all add: sitemap_entry_accepted)

lemma index_payload_valid:
  "cs \<noteq> [] \<Longrightarrow> list_all (\<lambda>c. startsWith c ''https://'') cs \<Longrightarrow>
   validateContent example_platform (index_payload cs) new_validator
     = (Inr (ValidationResult True [] [] None None), new_validator)"
  by (simp add: validateContent_def index_payload_def MAX_SITEMAP_SIZE_def new_validator_def
      validateSitemapIndex_def check_namespace_def SITEMAP_NAMESPACE_def sitemap_entries_accepted
      getResults_def)


lemma example_root_content:
  "validateContent example_platform (index_payload [''https://a.org/s1.xml'', ''https://a.org/s2.xml''])
     new_validator = (Inr (ValidationResult True [] [] None None), new_validator)"
  by (rule index_payload_valid) simp_all



lemma escaped_ampersands_not_reported:
  "\<not> bare_ampersand s \<Longrightarrow> \<not> (str_includes s ''&'' \<and> \<not> str_includes s ''&amp;'')"
  by (induction s) auto










subsection \<open>The claims about the validator\<close>

text \<open>
  C6. The claim: in recursive validation of a sitemap index every child location is
  traversed at depth 0, at most the first 10 at a greater depth, and each traversed
  child's result is stored in \<^verbatim>\<open>childResults\<close> under its URL. The code does not do
  it: \<^verbatim>\<open>validateContent\<close> returns what \<^verbatim>\<open>getResults\<close> builds, which has no
  \<^verbatim>\<open>childSitemaps\<close> member, so the condition of line 68 is never met. On a root index
  that lists two child sitemaps, with \<^verbatim>\<open>recursive: true\<close>, \<^verbatim>\<open>depth: 0\<close> and
  \<^verbatim>\<open>maxDepth: 3\<close>, the root is the only URL fetched and the result has no
  \<^verbatim>\<open>childResults\<close>.
\<close>

theorem recursive_walk_traverses_no_child:
  "validateUrl example_platform example_web ''https://a.org/sitemap.xml''
       \<lparr>recursive = True, depth = Some 0, maxDepth = Some 3\<rparr>
     = ([''https://a.org/sitemap.xml''], ValidationResult True [] [] None None)"
  by (simp add: validateUrl_flat example_web_def example_root_content)
     (simp add: getResults_def new_validator_def)

text \<open>
  C7. The claim: the walker recurses into the children of an index iff recursion is
  enabled and \<^verbatim>\<open>depth < maxDepth\<close>, and the children stay listed in \<^verbatim>\<open>childSitemaps\<close>
  when the depth is exhausted. For every platform, web, URL and options the code
  fetches the URL it is given and no other, and its result lists no children; with
  \<^verbatim>\<open>maxDepth: 1\<close> on the example site the documents of depth 1 are not validated.
\<close>

theorem walker_never_recurses_nor_lists_children:
  "fetched_itself_only u (validateUrl pf web u opts)
   \<and> fst (validateUrl example_platform example_web ''https://a.org/sitemap.xml''
            \<lparr>recursive = True, depth = Some 0, maxDepth = Some 1\<rparr>) = [''https://a.org/sitemap.xml'']"
  using validateUrl_result [of u pf web opts]
    validateUrl_result [of "''https://a.org/sitemap.xml''" example_platform example_web
      "\<lparr>recursive = True, depth = Some 0, maxDepth = Some 1\<rparr>"]
  by (simp add: fetched_itself_only_def)




text \<open>
  C9. The claim: a location with an ampersand that is not part of an \<^verbatim>\<open>&amp;\<close> escape
  gets an ``Unescaped ampersand'' error. The code tests
  \<^verbatim>\<open>loc.includes('&') && !loc.includes('&amp;')\<close>, so one escaped ampersand anywhere in
  the location silences the check for all the others: the entry below has a bare
  ampersand and passes without any error.
\<close>

theorem bare_ampersand_beside_escaped_one_not_reported:
  "bare_ampersand ''http://a.com/?a=1&amp;b=2&c=3'' \<and>
   validateUrlEntry example_platform 0 (entry_with_loc ''http://a.com/?a=1&amp;b=2&c=3'') (new_validator, [])
     = (None, (new_validator, [Prim (Str ''http://a.com/?a=1&amp;b=2&c=3'')]))"
  by (simp add: validateUrlEntry_def entry_with_loc_def isValidUrl_def example_platform_def
      check_lastmod_def check_changefreq_def check_priority_def check_common_issues_def new_validator_def)




section \<open>Properties of the batch orchestrator\<close>

lemma has_results_iff_not_blank:
  "has_results row \<longleftrightarrow> \<not> blank_cell (get_cell row ''404s'')"
  by (auto simp: has_results_def blank_cell_def js_trim_def split: option.splits)

lemma buildOutputFilename_numbered:
  "get_cell row ''Number'' \<noteq> None \<Longrightarrow> buildOutputFilename row = Inr (output_name row)"
  by (auto simp: buildOutputFilename_def output_name_def split: option.splits)

lemma process_rows_numbered:
  "numbered rows \<Longrightarrow>
     process_rows toNumber audit i rows
       = (map (request_of toNumber) (filter pending rows), Inr (audited_rows toNumber audit i rows))"
proof (induction rows arbitrary: i)
  case Nil
  show ?case by simp
next
  case (Cons row rest)
  from Cons.prems have rest: "numbered rest" by (simp add: numbered_def)
  note ih = Cons.IH [OF rest, of "i + 1"]
  show ?case
  proof (cases "has_results row")
    case True
    then show ?thesis using ih by (simp add: pending_def audited_row_def)
  next
    case False
    with Cons.prems have "get_cell row ''Number'' \<noteq> None" by (simp add: numbered_def)
    then have "buildOutputFilename row = Inr (output_name row)" by (rule buildOutputFilename_numbered)
    with False show ?thesis using ih
      by (simp add: pending_def audited_row_def request_of_def Let_def)
  qed
qed

lemma process_rows_all_done:
  "list_all has_results rows \<Longrightarrow> process_rows toNumber audit i rows = ([], Inr rows)"
  by (induction rows arbitrary: i) simp_all



lemma run_numbered:
  "rows \<noteq> [] \<Longrightarrow> numbered rows \<Longrightarrow>
     run toNumber audit rows
       = (map (request_of toNumber) (filter pending rows),
          Inr \<lparr>w_header = map fst (hd rows),
               w_records = map (record_line (map fst (hd rows))) (audited_rows toNumber audit 0 rows)\<rparr>)"
  by (cases rows) (simp_all add: run_def process_rows_numbered Let_def del: process_rows.simps)

lemma run_requests:
  "numbered rows \<Longrightarrow> fst (run toNumber audit rows) = map (request_of toNumber) (filter pending rows)"
  by (cases "rows = []") (simp add: run_def, simp add: run_numbered)

lemma run_all_done:
  "list_all has_results rows \<Longrightarrow> fst (run toNumber audit rows) = []"
  by (cases rows) (simp_all add: run_def process_rows_all_done Let_def del: process_rows.simps)









subsection \<open>The claims about the orchestrator\<close>

text \<open>
  C3, as stated, fails. The claim: the auditor is invoked exactly for the ranges whose
  recorded counts, \<^verbatim>\<open>404s\<close> and \<^verbatim>\<open>Non-404 Errors\<close>, are blank. The code looks at
  \<^verbatim>\<open>404s\<close> alone. Of the two rows below neither has both counts blank; the first,
  whose \<^verbatim>\<open>404s\<close> is empty and whose \<^verbatim>\<open>Non-404 Errors\<close> is 5, is audited, and the
  second, whose \<^verbatim>\<open>404s\<close> is 3 and whose \<^verbatim>\<open>Non-404 Errors\<close> is blank, is not.
\<close>

theorem rows_with_one_blank_count_counterexample:
  "fst (run example_Number failing_second mixed_rows)
     \<noteq> map (request_of example_Number) (filter counts_blank mixed_rows)
   \<and> fst (run example_Number failing_second mixed_rows) = [request_of example_Number (mixed_rows ! 0)]
   \<and> filter counts_blank mixed_rows = []"
  by (simp add: run_def mixed_rows_def grouping_row_def has_results_def get_cell_def js_trim_def
      is_white_space_def buildOutputFilename_def request_of_def output_name_def counts_blank_def
      blank_cell_def Let_def)

text \<open>
  C3, amended. When every pending row has its \<^verbatim>\<open>Number\<close> cell, the requests made to
  the auditor are those of the rows whose \<^verbatim>\<open>404s\<close> cell is blank (missing, empty or
  white space only), one each, in list order; the \<^verbatim>\<open>Non-404 Errors\<close> cell plays no
  part. A list in which no \<^verbatim>\<open>404s\<close> cell is blank causes no request at all.
\<close>

theorem audits_exactly_rows_with_blank_404s:
  "(numbered rows \<longrightarrow>
      fst (run toNumber audit rows)
        = map (request_of toNumber) (filter (\<lambda>row. blank_cell (get_cell row ''404s'')) rows))
   \<and> (list_all (\<lambda>row. \<not> blank_cell (get_cell row ''404s'')) rows \<longrightarrow> fst (run toNumber audit rows) = [])"
proof -
  have eq: "(\<lambda>row. blank_cell (get_cell row ''404s'')) = pending"
    by (simp add: pending_def has_results_iff_not_blank fun_eq_iff)
  have eq': "(\<lambda>row. \<not> blank_cell (get_cell row ''404s'')) = has_results"
    by (simp add: has_results_iff_not_blank fun_eq_iff)
  show ?thesis unfolding eq eq' using run_requests run_all_done by blast
qed

theorem audits_exactly_rows_with_blank_404s_witness:
  "numbered three_rows
   \<and> fst (run example_Number failing_second three_rows) = map (request_of example_Number) three_rows
   \<and> list_all (\<lambda>row. \<not> blank_cell (get_cell row ''404s'')) completed_rows
   \<and> fst (run example_Number failing_second completed_rows) = []"
proof -
  have n: "numbered three_rows"
    by (simp add: numbered_def three_rows_def grouping_row_def get_cell_def)
  have f: "filter (\<lambda>row. blank_cell (get_cell row ''404s'')) three_rows = three_rows"
    by (simp add: three_rows_def grouping_row_def get_cell_def blank_cell_def js_trim_def is_white_space_def)
  have d: "list_all (\<lambda>row. \<not> blank_cell (get_cell row ''404s'')) completed_rows"
    by (simp add: completed_rows_def grouping_row_def get_cell_def blank_cell_def js_trim_def is_white_space_def)
  from audits_exactly_rows_with_blank_404s [of three_rows example_Number failing_second] n f
    audits_exactly_rows_with_blank_404s [of completed_rows example_Number failing_second] d
  show ?thesis by simp
qed




section \<open>Properties of the range auditor\<close>

lemmas sweep_defs = checkUrl_started_def on_data_def record_status_def record_error_def
  count_non404_def Let_def

lemma settled_accounted:
  assumes "accounted net s" and "t \<in> set (requested s)" and "set fl \<subseteq> set (in_flight s)"
  shows "accounted net (checkUrl_settled cfg (snd t) (axios_get (net t)) (s\<lparr>in_flight := fl\<rparr>))"
proof (cases "net t")
  case (Status st)
  with assms show ?thesis
    by (auto simp: accounted_def sweep_defs)
next
  case NoResponse
  with assms show ?thesis by (auto simp: accounted_def sweep_defs)
next
  case (SetupError msg)
  with assms show ?thesis by (auto simp: accounted_def sweep_defs)
qed

lemma step_accounted:
  assumes "accounted net s"
  shows "accounted net (step cfg net e s)"
proof (cases e)
  case Data
  with assms show ?thesis
    by (auto simp: accounted_def sweep_defs split: list.splits)
next
  case Start
  with assms show ?thesis
    by (auto simp: accounted_def sweep_defs split: list.splits)
next
  case (Settle k)
  show ?thesis
  proof (cases "k < length (in_flight s)")
    case True
    have sub: "set (take k (in_flight s) @ drop (Suc k) (in_flight s)) \<subseteq> set (in_flight s)"
      using set_take_subset set_drop_subset by fastforce
    from True assms have "in_flight s ! k \<in> set (requested s)"
      by (auto simp: accounted_def)
    from settled_accounted [OF assms this sub] Settle True show ?thesis by simp
  next
    case False
    with Settle assms show ?thesis by simp
  qed
qed

lemma run_accounted:
  "accounted net s \<Longrightarrow> accounted net (run_events cfg net evs s)"
  unfolding run_events_def
  by (induction evs arbitrary: s) (simp_all add: step_accounted)

lemma init_accounted: "accounted net (init_sweep rows)"
  by (simp add: accounted_def init_sweep_def)
















lemma settled_frame:
  "requested (checkUrl_settled cfg u a s) = requested s
   \<and> rowNumber (checkUrl_settled cfg u a s) = rowNumber s
   \<and> in_flight (checkUrl_settled cfg u a s) = in_flight s
   \<and> queued (checkUrl_settled cfg u a s) = queued s
   \<and> unread (checkUrl_settled cfg u a s) = unread s
   \<and> (shouldStop s \<longrightarrow> shouldStop (checkUrl_settled cfg u a s))"
  by (cases a) (simp_all add: sweep_defs)

lemma settled_results:
  "take (length (results s)) (results (checkUrl_settled cfg u a s)) = results s
   \<and> (\<forall>r \<in> set (drop (length (results s)) (results (checkUrl_settled cfg u a s))). o_url r = u)"
  by (cases a) (simp_all add: sweep_defs)

lemma settled_counts:
  "length (results (checkUrl_settled cfg u (axios_get r) s)) = length (results s) + recorded_by r
   \<and> count404 (checkUrl_settled cfg u (axios_get r) s) + non404ErrorCount (checkUrl_settled cfg u (axios_get r) s)
       = count404 s + non404ErrorCount s + recorded_by r"
  by (cases r) (auto simp: sweep_defs recorded_by_def)

lemma after_stop_refl: "shouldStop s \<Longrightarrow> after_stop s s"
  by (simp add: after_stop_def)

lemma after_stop_trans:
  assumes "after_stop s s'" and "after_stop s' s''"
  shows "after_stop s s''"
proof -
  from assms(1) have p1: "take (length (results s)) (results s') = results s" by (simp add: after_stop_def)
  from assms(2) have p2: "take (length (results s')) (results s'') = results s'" by (simp add: after_stop_def)
  define n1 where "n1 = drop (length (results s)) (results s')"
  define n2 where "n2 = drop (length (results s')) (results s'')"
  have r1: "results s' = results s @ n1"
    unfolding n1_def using p1 append_take_drop_id [of "length (results s)" "results s'"] by simp
  have r2: "results s'' = results s' @ n2"
    unfolding n2_def using p2 append_take_drop_id [of "length (results s')" "results s''"] by simp
  have f1: "\<forall>r \<in> set n1. \<exists>t \<in> set (in_flight s). o_url r = snd t"
    using assms(1) by (simp add: after_stop_def n1_def)
  have f2: "\<forall>r \<in> set n2. \<exists>t \<in> set (in_flight s'). o_url r = snd t"
    using assms(2) by (simp add: after_stop_def n2_def)
  have sub: "set (in_flight s') \<subseteq> set (in_flight s)" using assms(1) by (simp add: after_stop_def)
  have f2': "\<forall>r \<in> set n2. \<exists>t \<in> set (in_flight s). o_url r = snd t"
    using f2 sub by blast
  have r: "results s'' = results s @ n1 @ n2" using r1 r2 by simp
  have "take (length (results s)) (results s'') = results s" by (simp add: r)
  moreover have "drop (length (results s)) (results s'') = n1 @ n2" by (simp add: r)
  moreover have "set (in_flight s'') \<subseteq> set (in_flight s)"
    using assms sub by (auto simp: after_stop_def)
  ultimately show ?thesis using assms f1 f2' by (auto simp: after_stop_def)
qed

lemma step_after_stop:
  assumes "shouldStop s"
  shows "after_stop s (step cfg net e s)"
proof (cases e)
  case Data
  with assms show ?thesis by (auto simp: after_stop_def on_data_def split: list.splits)
next
  case Start
  with assms show ?thesis by (auto simp: after_stop_def checkUrl_started_def split: list.splits)
next
  case (Settle k)
  show ?thesis
  proof (cases "k < length (in_flight s)")
    case False
    with Settle assms show ?thesis by (simp add: after_stop_def)
  next
    case True
    let ?s0 = "s\<lparr>in_flight := take k (in_flight s) @ drop (Suc k) (in_flight s)\<rparr>"
    let ?t = "in_flight s ! k"
    let ?s' = "checkUrl_settled cfg (snd ?t) (axios_get (net ?t)) ?s0"
    have sub: "set (take k (in_flight s) @ drop (Suc k) (in_flight s)) \<subseteq> set (in_flight s)"
      using set_take_subset set_drop_subset by fastforce
    have t: "?t \<in> set (in_flight s)" using True by simp
    from settled_frame [of cfg "snd ?t" "axios_get (net ?t)" ?s0] assms
    have fr: "requested ?s' = requested s" "rowNumber ?s' = rowNumber s" "shouldStop ?s'"
      "in_flight ?s' = take k (in_flight s) @ drop (Suc k) (in_flight s)" by simp_all
    from settled_results [of ?s0 cfg "snd ?t" "axios_get (net ?t)"]
    have rs: "take (length (results s)) (results ?s') = results s"
      "\<forall>r \<in> set (drop (length (results s)) (results ?s')). o_url r = snd ?t" by simp_all
    from rs(2) t have "\<forall>r \<in> set (drop (length (results s)) (results ?s')). \<exists>t \<in> set (in_flight s). o_url r = snd t"
      by blast
    with fr rs(1) sub have "after_stop s ?s'" by (simp add: after_stop_def)
    with Settle True show ?thesis by simp
  qed
qed

lemma run_after_stop:
  "shouldStop s \<Longrightarrow> after_stop s (run_events cfg net evs s)"
proof (induction evs arbitrary: s)
  case Nil
  then show ?case by (simp add: run_events_def after_stop_refl)
next
  case (Cons e evs)
  from Cons.prems have a: "after_stop s (step cfg net e s)" by (rule step_after_stop)
  then have "shouldStop (step cfg net e s)" by (simp add: after_stop_def)
  from Cons.IH [OF this] have "after_stop (step cfg net e s) (run_events cfg net evs (step cfg net e s))" .
  with a have "after_stop s (run_events cfg net evs (step cfg net e s))" by (rule after_stop_trans)
  then show ?case by (simp add: run_events_def)
qed

lemma settled_stop_flag:
  "stop_flag cfg s \<Longrightarrow> stop_flag cfg (checkUrl_settled cfg u a s)"
  by (cases a) (auto simp: sweep_defs stop_flag_def)

lemma step_stop_flag:
  assumes "stop_flag cfg s"
  shows "stop_flag cfg (step cfg net e s)"
proof (cases e)
  case Data
  with assms show ?thesis by (auto simp: stop_flag_def on_data_def Let_def split: list.splits)
next
  case Start
  with assms show ?thesis by (auto simp: stop_flag_def checkUrl_started_def split: list.splits)
next
  case (Settle k)
  have "stop_flag cfg (s\<lparr>in_flight := take k (in_flight s) @ drop (Suc k) (in_flight s)\<rparr>)"
    using assms by (simp add: stop_flag_def)
  from settled_stop_flag [OF this] Settle assms show ?thesis by simp
qed

lemma run_stop_flag:
  "stop_flag cfg s \<Longrightarrow> stop_flag cfg (run_events cfg net evs s)"
  unfolding run_events_def
  by (induction evs arbitrary: s) (simp_all add: step_stop_flag)

lemma init_stop_flag: "stop_flag cfg (init_sweep rows)"
  by (auto simp: stop_flag_def init_sweep_def)

lemma example_until_stop:
  "run_events stopping_options example_net until_stop (init_sweep example_csv)
     = \<lparr>results = [\<lparr>o_url = ''https://a.org/1'', o_status = Some 500, o_error = None\<rparr>],
        rowNumber = 4, count404 = 0, non404ErrorCount = 1, shouldStop = True,
        unread = [''https://a.org/4''], queued = [(3, ''https://a.org/3'')],
        in_flight = [(2, ''https://a.org/2'')],
        requested = [(1, ''https://a.org/1''), (2, ''https://a.org/2'')]\<rparr>"
  by (simp add: run_events_def until_stop_def init_sweep_def example_csv_def stopping_options_def
      example_options_def example_net_def sweep_defs in_range_def)

lemma settled_ok_records_nothing:
  "results (checkUrl_settled cfg u (axios_get (Status 200)) s) = results s"
  by simp

subsection \<open>The claims about the range auditor\<close>

text \<open>
  C1. In every state a sweep of \<^verbatim>\<open>auditSitemapURLs\<close> reaches, whatever the order in
  which the stream, p-limit and the network take their turns, and so in the final one:
  \<^verbatim>\<open>count404\<close> plus \<^verbatim>\<open>non404ErrorCount\<close> is the number of recorded rows; no recorded
  row has status 200, and each belongs to a request that was sent and was not answered
  with status 200; a request in flight that is answered with status 200 settles without
  recording a row.
\<close>

theorem counters_match_recorded_rows_and_no_200_recorded:
  assumes "auditSitemapURLs cfg net rows evs = Inr s"
  shows "count404 s + non404ErrorCount s = length (results s)
         \<and> (\<forall>r \<in> set (results s).
               o_status r \<noteq> Some 200
               \<and> (\<exists>t \<in> set (requested s). o_url r = snd t \<and> net t \<noteq> Status 200))
         \<and> (\<forall>k < length (in_flight s).
               net (in_flight s ! k) = Status 200 \<longrightarrow> results (step cfg net (Settle k) s) = results s)"
proof -
  from assms have s: "s = run_events cfg net evs (init_sweep rows)"
    by (auto simp: auditSitemapURLs_def split: if_splits)
  have "accounted net s"
    unfolding s using init_accounted by (rule run_accounted)
  then show ?thesis
    by (auto simp: accounted_def)
qed

theorem counters_match_recorded_rows_and_no_200_recorded_witness:
  "auditSitemapURLs stopping_options example_net example_csv until_stop
     = Inr (run_events stopping_options example_net until_stop (init_sweep example_csv))
   \<and> count404 (run_events stopping_options example_net until_stop (init_sweep example_csv))
       + non404ErrorCount (run_events stopping_options example_net until_stop (init_sweep example_csv)) = 1
   \<and> results (run_events stopping_options example_net until_stop (init_sweep example_csv))
       = [\<lparr>o_url = ''https://a.org/1'', o_status = Some 500, o_error = None\<rparr>]"
proof -
  have a: "auditSitemapURLs stopping_options example_net example_csv until_stop
     = Inr (run_events stopping_options example_net until_stop (init_sweep example_csv))"
    by (simp add: auditSitemapURLs_def stopping_options_def example_options_def falsy_number_def)
  from counters_match_recorded_rows_and_no_200_recorded [OF a] a show ?thesis
    by (simp add: example_until_stop)
qed



text \<open>
  C5. Let the early stop be enabled and let \<^verbatim>\<open>s\<close> be a state of the sweep in which
  \<^verbatim>\<open>non404ErrorCount\<close> has reached the threshold. Whatever happens from \<^verbatim>\<open>s\<close> on, no
  request is sent any more (a task that p-limit starts returns at once, and the stream
  handler neither counts nor queues a row), and every row recorded from then on belongs
  to a request that was already in flight in \<^verbatim>\<open>s\<close>. Such a request still settles as
  usual: unless it is answered with status 200 it adds one row and one to the counters.
\<close>

theorem early_stop_sends_nothing_new_and_in_flight_still_count:
  assumes "0 < maxNon404Results cfg"
    and "s = run_events cfg net before (init_sweep rows)"
    and "maxNon404Results cfg \<le> non404ErrorCount s"
  shows "after_stop s (run_events cfg net afterwards s)
         \<and> (\<forall>k < length (in_flight s).
               length (results (step cfg net (Settle k) s))
                 = length (results s) + recorded_by (net (in_flight s ! k))
               \<and> count404 (step cfg net (Settle k) s) + non404ErrorCount (step cfg net (Settle k) s)
                 = count404 s + non404ErrorCount s + recorded_by (net (in_flight s ! k)))"
proof -
  have "stop_flag cfg s"
    unfolding assms(2) using init_stop_flag by (rule run_stop_flag)
  with assms(1,3) have stop: "shouldStop s" by (simp add: stop_flag_def)
  then have "after_stop s (run_events cfg net afterwards s)" by (rule run_after_stop)
  moreover have "length (results (step cfg net (Settle k) s))
                 = length (results s) + recorded_by (net (in_flight s ! k))
               \<and> count404 (step cfg net (Settle k) s) + non404ErrorCount (step cfg net (Settle k) s)
                 = count404 s + non404ErrorCount s + recorded_by (net (in_flight s ! k))"
    if "k < length (in_flight s)" for k
    using that
      settled_counts [of cfg "snd (in_flight s ! k)" "net (in_flight s ! k)"
        "s\<lparr>in_flight := take k (in_flight s) @ drop (Suc k) (in_flight s)\<rparr>"]
    by simp
  ultimately show ?thesis by blast
qed

theorem early_stop_sends_nothing_new_and_in_flight_still_count_witness:
  "0 < maxNon404Results stopping_options
   \<and> maxNon404Results stopping_options
       \<le> non404ErrorCount (run_events stopping_options example_net until_stop (init_sweep example_csv))
   \<and> requested (run_events stopping_options example_net from_stop
        (run_events stopping_options example_net until_stop (init_sweep example_csv)))
       = [(1, ''https://a.org/1''), (2, ''https://a.org/2'')]
   \<and> results (run_events stopping_options example_net from_stop
        (run_events stopping_options example_net until_stop (init_sweep example_csv)))
       = [\<lparr>o_url = ''https://a.org/1'', o_status = Some 500, o_error = None\<rparr>,
          \<lparr>o_url = ''https://a.org/2'', o_status = Some 404, o_error = None\<rparr>]"
proof -
  let ?s = "run_events stopping_options example_net until_stop (init_sweep example_csv)"
  have t: "0 < maxNon404Results stopping_options"
    by (simp add: stopping_options_def example_options_def)
  have n: "maxNon404Results stopping_options \<le> non404ErrorCount ?s"
    by (simp add: example_until_stop) (simp add: stopping_options_def example_options_def)
  from early_stop_sends_nothing_new_and_in_flight_still_count [OF t refl n, of from_stop]
  have "requested (run_events stopping_options example_net from_stop ?s) = requested ?s"
    by (simp add: after_stop_def)
  then have r: "requested (run_events stopping_options example_net from_stop ?s)
      = [(1, ''https://a.org/1''), (2, ''https://a.org/2'')]"
    by (simp add: example_until_stop)
  have "results (run_events stopping_options example_net from_stop ?s)
       = [\<lparr>o_url = ''https://a.org/1'', o_status = Some 500, o_error = None\<rparr>,
          \<lparr>o_url = ''https://a.org/2'', o_status = Some 404, o_error = None\<rparr>]"
    unfolding example_until_stop
    by (simp add: run_events_def from_stop_def stopping_options_def example_options_def
        example_net_def sweep_defs)
  with t n r show ?thesis by simp
qed

end
